theory Spec2Isabelle
  imports Main "HOL-Library.Word"
begin

section \<open>Statistics results (\<open>matrixIterators/MatrixStats.cpp\<close>)\<close>

subsection \<open>Values and arrays\<close>

text \<open>
  A C++ \<open>double\<close> is an IEEE-754 binary64 value: one sign bit and a 63-bit field holding
  the biased exponent (11 bits) followed by the fraction (52 bits). No arithmetic is done on
  doubles in the code verified here; they are only stored, copied and compared, so the bit
  pattern and the comparison operators are all that is modelled.
\<close>

datatype double = Double (sign_bit: bool) (magnitude: "63 word")

text \<open>
  Modelled from the spec: the type of \<open>row_stats\<close> and \<open>col_stats\<close> is Eigen's
  \<open>ArrayXXd\<close>, declared outside the repository's sources. It is a dynamically sized
  two-dimensional array of doubles with \<open>rows()\<close> rows and \<open>cols()\<close> columns, stored in
  column-major order; \<open>row(k)\<close> is its row \<open>k\<close>, which the accessors return as an array of
  one row.
\<close>

record ArrayXXd =
  rows :: nat
  cols :: nat
  coeffs :: "double list"

definition coeff :: "ArrayXXd \<Rightarrow> nat \<Rightarrow> nat \<Rightarrow> double" where
  "coeff a i j = coeffs a ! (i + j * rows a)"

definition row :: "ArrayXXd \<Rightarrow> nat \<Rightarrow> ArrayXXd" where
  "row a k = \<lparr>rows = 1, cols = cols a, coeffs = map (\<lambda>j. coeff a k j) [0..<cols a]\<rparr>"

subsection \<open>The result structure and its accessors\<close>

text \<open>
  Modelled from the spec: the structure \<open>StatsResult\<close> is declared in a header outside the
  repository's sources. It holds two arrays, \<open>row_stats\<close> and \<open>col_stats\<close>, in this order
  (\<open>transpose\<close> builds one from \<open>col_stats\<close> and \<open>row_stats\<close>); the rows of each array are
  the statistics nonzeros, mean and variance, as far as they were computed.
\<close>

record StatsResult =
  row_stats :: ArrayXXd
  col_stats :: ArrayXXd

datatype error = runtime_error string

definition rowNonzeros :: "StatsResult \<Rightarrow> error + ArrayXXd" where
  "rowNonzeros r =
     (if rows (row_stats r) < 1 then Inl (runtime_error ''Nonzero not calculated in this StatsResult'')
      else Inr (row (row_stats r) 0))"

definition rowMean :: "StatsResult \<Rightarrow> error + ArrayXXd" where
  "rowMean r =
     (if rows (row_stats r) < 2 then Inl (runtime_error ''Mean not calculated in this StatsResult'')
      else Inr (row (row_stats r) 1))"

definition rowVariance :: "StatsResult \<Rightarrow> error + ArrayXXd" where
  "rowVariance r =
     (if rows (row_stats r) < 3 then Inl (runtime_error ''Variance not calculated in this StatsResult'')
      else Inr (row (row_stats r) 2))"

definition colNonzeros :: "StatsResult \<Rightarrow> error + ArrayXXd" where
  "colNonzeros r =
     (if rows (col_stats r) < 1 then Inl (runtime_error ''Nonzero not calculated in this StatsResult'')
      else Inr (row (col_stats r) 0))"

definition colMean :: "StatsResult \<Rightarrow> error + ArrayXXd" where
  "colMean r =
     (if rows (col_stats r) < 2 then Inl (runtime_error ''Mean not calculated in this StatsResult'')
      else Inr (row (col_stats r) 1))"

definition colVariance :: "StatsResult \<Rightarrow> error + ArrayXXd" where
  "colVariance r =
     (if rows (col_stats r) < 3 then Inl (runtime_error ''Variance not calculated in this StatsResult'')
      else Inr (row (col_stats r) 2))"

definition transpose :: "StatsResult \<Rightarrow> StatsResult" where
  "transpose r = \<lparr>row_stats = col_stats r, col_stats = row_stats r\<rparr>"

text \<open>
  What an accessor at position \<open>k\<close> of the sequence (nonzeros, mean, variance) must do on a
  statistics array \<open>a\<close>: fail with the given message when \<open>a\<close> has at most \<open>k\<close> rows, and
  otherwise return the one-row array whose entries are those of row \<open>k\<close> of \<open>a\<close>.
\<close>

definition fails_with :: "error + ArrayXXd \<Rightarrow> string \<Rightarrow> bool" where
  "fails_with res msg = (res = Inl (runtime_error msg))"

definition returns_row :: "error + ArrayXXd \<Rightarrow> ArrayXXd \<Rightarrow> nat \<Rightarrow> bool" where
  "returns_row res a k =
     (case res of
        Inl e \<Rightarrow> False
      | Inr b \<Rightarrow> rows b = 1 \<and> cols b = cols a \<and> length (coeffs b) = cols a \<and>
          list_all (\<lambda>j. coeff b 0 j = coeff a k j) [0..<cols a])"

definition accessor_ok :: "error + ArrayXXd \<Rightarrow> ArrayXXd \<Rightarrow> nat \<Rightarrow> string \<Rightarrow> bool" where
  "accessor_ok res a k msg =
     (if rows a \<le> k then fails_with res msg else returns_row res a k)"

definition succeeds :: "error + ArrayXXd \<Rightarrow> bool" where
  "succeeds res = (case res of Inl e \<Rightarrow> False | Inr b \<Rightarrow> True)"

section \<open>Minimum transforms (\<open>matrixTransforms/Min.cpp\<close>)\<close>

subsection \<open>Comparison of doubles and \<open>std::min\<close>\<close>

text \<open>
  A double is a NaN when its exponent bits are all ones and its fraction is not zero, that
  is, when the 63-bit field exceeds the pattern of infinity. Doubles that are not NaN are
  ordered as sign-magnitude integers; the two zeros compare equal. Every comparison with a
  NaN is false.
\<close>

definition isnan :: "double \<Rightarrow> bool" where
  "isnan d = (0x7FF0000000000000 < magnitude d)"

definition key :: "double \<Rightarrow> int" where
  "key d = (if sign_bit d then - uint (magnitude d) else uint (magnitude d))"

definition dless :: "double \<Rightarrow> double \<Rightarrow> bool" where
  "dless a b = (\<not> isnan a \<and> \<not> isnan b \<and> key a < key b)"

definition dle :: "double \<Rightarrow> double \<Rightarrow> bool" where
  "dle a b = (\<not> isnan a \<and> \<not> isnan b \<and> key a \<le> key b)"

definition deq :: "double \<Rightarrow> double \<Rightarrow> bool" where
  "deq a b = (\<not> isnan a \<and> \<not> isnan b \<and> key a = key b)"

text \<open>\<open>std::min(a, b)\<close> of the C++ standard library: \<open>b\<close> if \<open>b < a\<close>, otherwise \<open>a\<close>.\<close>

definition std_min :: "double \<Rightarrow> double \<Rightarrow> double" where
  "std_min a b = (if dless b a then b else a)"

subsection \<open>The parameter provider and the loader state\<close>

text \<open>
  Modelled from the spec: the type of \<open>fit\<close> is declared in a header outside the
  repository's sources. It offers three read-only lookups, each returning a double and
  assumed total: \<open>global_params(index)\<close>, \<open>row_params(index, row)\<close> and
  \<open>col_params(index, col)\<close>.
\<close>

record TransformFit =
  global_params :: "nat \<Rightarrow> double"
  row_params :: "nat \<Rightarrow> 32 word \<Rightarrow> double"
  col_params :: "nat \<Rightarrow> 32 word \<Rightarrow> double"

text \<open>Every lookup made on the provider is recorded, in the order the code makes it.\<close>

datatype lookup =
  global_lookup nat
| row_lookup nat "32 word"
| col_lookup nat "32 word"

text \<open>
  Modelled from the spec: the accessors \<open>valData()\<close>, \<open>rowData()\<close>, \<open>capacity()\<close> and
  \<open>currentCol()\<close> are declared in a header outside the repository's sources; they describe
  the chunk currently held by the chain. \<open>valData()\<close> and \<open>rowData()\<close> are pointers to
  buffers owned by the innermost source, so the buffers are a store from \<open>uint32_t\<close>
  offsets to values, shared by every stage of the chain. The record is extensible: the
  upstream loader may keep any further state of its own.
\<close>

record loader_state =
  valData :: "32 word \<Rightarrow> double"
  rowData :: "32 word \<Rightarrow> 32 word"
  capacity :: "32 word"
  currentCol :: "32 word"
  lookups :: "lookup list"

text \<open>\<open>load()\<close> of a loader: the boolean it returns and the state it leaves.\<close>

type_synonym 'a loader = "'a loader_state_scheme \<Rightarrow> bool \<times> 'a loader_state_scheme"

subsection \<open>The three stages\<close>

text \<open>
  The loop of \<open>Min::load\<close>, from counter \<open>i\<close>. The counter never wraps: it is incremented
  only while it is below \<open>cap\<close>.
\<close>

function Min_loop ::
  "TransformFit \<Rightarrow> 32 word \<Rightarrow> 32 word \<Rightarrow> 'a loader_state_scheme \<Rightarrow> 'a loader_state_scheme" where
  "Min_loop fit cap i s =
     (if i < cap then
        Min_loop fit cap (i + 1)
          (s\<lparr>valData := (valData s)(i := std_min (valData s i) (global_params fit 0)),
             lookups := lookups s @ [global_lookup 0]\<rparr>)
      else s)"
  by pat_completeness auto
termination
  by (relation "measure (\<lambda>(fit, cap, i, s). unat cap - unat i)") (simp_all, unat_arith)

definition Min_load :: "TransformFit \<Rightarrow> 'a loader \<Rightarrow> 'a loader" where
  "Min_load fit loader s =
     (case loader s of
        (ok, s') \<Rightarrow> if \<not> ok then (False, s') else (True, Min_loop fit (capacity s') 0 s'))"

function MinByRow_loop ::
  "TransformFit \<Rightarrow> 32 word \<Rightarrow> 32 word \<Rightarrow> 'a loader_state_scheme \<Rightarrow> 'a loader_state_scheme" where
  "MinByRow_loop fit cap i s =
     (if i < cap then
        MinByRow_loop fit cap (i + 1)
          (s\<lparr>valData := (valData s)(i := std_min (valData s i) (row_params fit 0 (rowData s i))),
             lookups := lookups s @ [row_lookup 0 (rowData s i)]\<rparr>)
      else s)"
  by pat_completeness auto
termination
  by (relation "measure (\<lambda>(fit, cap, i, s). unat cap - unat i)") (simp_all, unat_arith)

definition MinByRow_load :: "TransformFit \<Rightarrow> 'a loader \<Rightarrow> 'a loader" where
  "MinByRow_load fit loader s =
     (case loader s of
        (ok, s') \<Rightarrow> if \<not> ok then (False, s') else (True, MinByRow_loop fit (capacity s') 0 s'))"

text \<open>
  In \<open>MinByCol::load\<close> the parameter is read once, before the loop, into \<open>col_min\<close>.
\<close>

function MinByCol_loop ::
  "double \<Rightarrow> 32 word \<Rightarrow> 32 word \<Rightarrow> 'a loader_state_scheme \<Rightarrow> 'a loader_state_scheme" where
  "MinByCol_loop col_min cap i s =
     (if i < cap then
        MinByCol_loop col_min cap (i + 1)
          (s\<lparr>valData := (valData s)(i := std_min (valData s i) col_min)\<rparr>)
      else s)"
  by pat_completeness auto
termination
  by (relation "measure (\<lambda>(col_min, cap, i, s). unat cap - unat i)") (simp_all, unat_arith)

definition MinByCol_load :: "TransformFit \<Rightarrow> 'a loader \<Rightarrow> 'a loader" where
  "MinByCol_load fit loader s =
     (case loader s of
        (ok, s') \<Rightarrow>
          if \<not> ok then (False, s')
          else
            (let col_min = col_params fit 0 (currentCol s');
                 s'' = s'\<lparr>lookups := lookups s' @ [col_lookup 0 (currentCol s')]\<rparr>
             in (True, MinByCol_loop col_min (capacity s') 0 s'')))"

section \<open>Concrete values used to exercise the definitions\<close>

text \<open>Bit patterns of some doubles: \<open>0.0\<close>, \<open>-0.0\<close>, \<open>1.0\<close>, \<open>2.0\<close>, \<open>3.0\<close>, \<open>4.0\<close>, \<open>5.0\<close>,
  \<open>10.0\<close>, \<open>2.0 / 3.0\<close> and a quiet NaN.\<close>

definition d_zero :: double where "d_zero = Double False 0"
definition d_neg_zero :: double where "d_neg_zero = Double True 0"
definition d_one :: double where "d_one = Double False 0x3FF0000000000000"
definition d_two :: double where "d_two = Double False 0x4000000000000000"
definition d_three :: double where "d_three = Double False 0x4008000000000000"
definition d_four :: double where "d_four = Double False 0x4010000000000000"
definition d_five :: double where "d_five = Double False 0x4014000000000000"
definition d_ten :: double where "d_ten = Double False 0x4024000000000000"
definition d_two_thirds :: double where "d_two_thirds = Double False 0x3FE5555555555555"
definition d_nan :: double where "d_nan = Double False 0x7FF8000000000000"

text \<open>Statistics of the 3 x 1 matrix with entries 1, 2, 3: once with nonzero counts only,
  once with all three statistics.\<close>

definition nonzeros_only :: StatsResult where
  "nonzeros_only =
     \<lparr>row_stats = \<lparr>rows = 1, cols = 3, coeffs = [d_one, d_one, d_one]\<rparr>,
      col_stats = \<lparr>rows = 1, cols = 1, coeffs = [d_three]\<rparr>\<rparr>"

definition full_stats :: StatsResult where
  "full_stats =
     \<lparr>row_stats = \<lparr>rows = 3, cols = 3,
        coeffs = [d_one, d_one, d_zero, d_one, d_two, d_zero, d_one, d_three, d_zero]\<rparr>,
      col_stats = \<lparr>rows = 3, cols = 1, coeffs = [d_three, d_two, d_two_thirds]\<rparr>\<rparr>"

text \<open>The chunk of column 0 with values 1, 5, 3 at rows 0, 2, 4, the same values in
  column 1, and a provider with \<open>global_params(0) = 2\<close>, \<open>row_params(0, 0) = 0\<close>,
  \<open>row_params(0, 2) = 10\<close>, \<open>row_params(0, 4) = 1\<close>, \<open>col_params(0, 0) = 4\<close> and
  \<open>col_params(0, 1) = 2\<close>.\<close>

definition example_chunk :: loader_state where
  "example_chunk =
     \<lparr>valData = (\<lambda>i. d_zero)(0 := d_one, 1 := d_five, 2 := d_three),
      rowData = (\<lambda>i. 0)(0 := 0, 1 := 2, 2 := 4),
      capacity = 3, currentCol = 0, lookups = []\<rparr>"

definition example_chunk_col1 :: loader_state where
  "example_chunk_col1 = example_chunk\<lparr>currentCol := 1\<rparr>"

definition example_fit :: TransformFit where
  "example_fit =
     \<lparr>global_params = (\<lambda>k. d_two),
      row_params = (\<lambda>k r. if r = 0 then d_zero else if r = 2 then d_ten else d_one),
      col_params = (\<lambda>k c. if c = 0 then d_four else d_two)\<rparr>"

text \<open>The same chunk with a NaN as its second value; a provider whose every parameter is a
  NaN; one whose row parameters are \<open>-0.0\<close> and whose other parameters are \<open>0.0\<close>; and one that
  agrees with \<open>example_fit\<close> at parameter index 0 only.\<close>

definition nan_chunk :: loader_state where
  "nan_chunk = example_chunk\<lparr>valData := (valData example_chunk)(1 := d_nan)\<rparr>"

definition nan_fit :: TransformFit where
  "nan_fit =
     \<lparr>global_params = (\<lambda>k. d_nan), row_params = (\<lambda>k r. d_nan), col_params = (\<lambda>k c. d_nan)\<rparr>"

definition zero_fit :: TransformFit where
  "zero_fit =
     \<lparr>global_params = (\<lambda>k. d_zero), row_params = (\<lambda>k r. d_neg_zero),
      col_params = (\<lambda>k c. d_zero)\<rparr>"

definition other_fit :: TransformFit where
  "other_fit =
     \<lparr>global_params = (\<lambda>k. if k = 0 then d_two else d_ten),
      row_params = (\<lambda>k r. if k = 0 then row_params example_fit 0 r else d_nan),
      col_params = (\<lambda>k c. if k = 0 then col_params example_fit 0 c else d_zero)\<rparr>"

text \<open>An upstream whose \<open>load()\<close> succeeds and leaves the chunk \<open>c\<close>, and one that is
  exhausted.\<close>

definition source_of :: "'a loader_state_scheme \<Rightarrow> 'a loader" where
  "source_of c s = (True, c)"

definition exhausted :: "'a loader" where
  "exhausted s = (False, s)"

section \<open>Properties of the statistics result\<close>

lemma returns_row_row: "returns_row (Inr (row a k)) a k"
  by (simp add: returns_row_def row_def coeff_def list_all_iff)

lemma accessor_ok_if:
  "accessor_ok (if rows a < Suc k then Inl (runtime_error msg) else Inr (row a k)) a k msg"
  by (simp add: accessor_ok_def fails_with_def returns_row_row)

lemma succeeds_if:
  "succeeds (if rows a < Suc k then Inl e else Inr b) = (k < rows a)"
  by (auto simp: succeeds_def)

text \<open>
  C5. Each of the six accessors fails with its "not calculated" error exactly when the
  statistics array of its orientation has too few rows for the accessor's position
  (nonzeros 0, mean 1, variance 2), and in that case returns no array at all; otherwise it
  returns the one-row array holding that row of the statistics array.
\<close>

theorem accessors_fail_exactly_when_not_computed:
  "accessor_ok (rowNonzeros r) (row_stats r) 0 ''Nonzero not calculated in this StatsResult'' \<and>
   accessor_ok (rowMean r) (row_stats r) 1 ''Mean not calculated in this StatsResult'' \<and>
   accessor_ok (rowVariance r) (row_stats r) 2 ''Variance not calculated in this StatsResult'' \<and>
   accessor_ok (colNonzeros r) (col_stats r) 0 ''Nonzero not calculated in this StatsResult'' \<and>
   accessor_ok (colMean r) (col_stats r) 1 ''Mean not calculated in this StatsResult'' \<and>
   accessor_ok (colVariance r) (col_stats r) 2 ''Variance not calculated in this StatsResult'' \<and>
   succeeds (rowNonzeros r) = (0 < rows (row_stats r)) \<and>
   succeeds (rowMean r) = (1 < rows (row_stats r)) \<and>
   succeeds (rowVariance r) = (2 < rows (row_stats r)) \<and>
   succeeds (colNonzeros r) = (0 < rows (col_stats r)) \<and>
   succeeds (colMean r) = (1 < rows (col_stats r)) \<and>
   succeeds (colVariance r) = (2 < rows (col_stats r))"
proof -
  have n: "(1::nat) = Suc 0" "(2::nat) = Suc 1" "(3::nat) = Suc 2" by simp_all
  have "accessor_ok (rowNonzeros r) (row_stats r) 0 ''Nonzero not calculated in this StatsResult''"
    unfolding rowNonzeros_def n by (rule accessor_ok_if)
  moreover have "accessor_ok (rowMean r) (row_stats r) 1 ''Mean not calculated in this StatsResult''"
    unfolding rowMean_def n by (rule accessor_ok_if)
  moreover have "accessor_ok (rowVariance r) (row_stats r) 2 ''Variance not calculated in this StatsResult''"
    unfolding rowVariance_def n by (rule accessor_ok_if)
  moreover have "accessor_ok (colNonzeros r) (col_stats r) 0 ''Nonzero not calculated in this StatsResult''"
    unfolding colNonzeros_def n by (rule accessor_ok_if)
  moreover have "accessor_ok (colMean r) (col_stats r) 1 ''Mean not calculated in this StatsResult''"
    unfolding colMean_def n by (rule accessor_ok_if)
  moreover have "accessor_ok (colVariance r) (col_stats r) 2 ''Variance not calculated in this StatsResult''"
    unfolding colVariance_def n by (rule accessor_ok_if)
  moreover have "succeeds (rowNonzeros r) = (0 < rows (row_stats r))"
    unfolding rowNonzeros_def n by (rule succeeds_if)
  moreover have "succeeds (rowMean r) = (1 < rows (row_stats r))"
    unfolding rowMean_def n by (rule succeeds_if)
  moreover have "succeeds (rowVariance r) = (2 < rows (row_stats r))"
    unfolding rowVariance_def n by (rule succeeds_if)
  moreover have "succeeds (colNonzeros r) = (0 < rows (col_stats r))"
    unfolding colNonzeros_def n by (rule succeeds_if)
  moreover have "succeeds (colMean r) = (1 < rows (col_stats r))"
    unfolding colMean_def n by (rule succeeds_if)
  moreover have "succeeds (colVariance r) = (2 < rows (col_stats r))"
    unfolding colVariance_def n by (rule succeeds_if)
  ultimately show ?thesis by blast
qed

text \<open>On the result computed with nonzero counts only, \<open>rowNonzeros\<close> returns the counts and
  \<open>rowVariance\<close> and \<open>colMean\<close> fail.\<close>

theorem accessors_fail_exactly_when_not_computed_witness:
  "returns_row (rowNonzeros nonzeros_only) (row_stats nonzeros_only) 0 \<and>
   fails_with (rowVariance nonzeros_only) ''Variance not calculated in this StatsResult'' \<and>
   fails_with (colMean nonzeros_only) ''Mean not calculated in this StatsResult'' \<and>
   \<not> succeeds (rowVariance nonzeros_only) \<and>
   rowVariance nonzeros_only \<noteq> Inr (row (row_stats nonzeros_only) 2)"
proof -
  have "rows (row_stats nonzeros_only) = 1" and "rows (col_stats nonzeros_only) = 1"
    by (simp_all add: nonzeros_only_def)
  with accessors_fail_exactly_when_not_computed [of nonzeros_only] show ?thesis
    by (auto simp: accessor_ok_def fails_with_def)
qed

text \<open>
  C6. \<open>transpose\<close> returns a result whose \<open>row_stats\<close> is the original \<open>col_stats\<close> and whose
  \<open>col_stats\<close> is the original \<open>row_stats\<close>; transposing twice gives back the original result.
\<close>

theorem transpose_swaps_and_is_involution:
  "row_stats (transpose r) = col_stats r \<and> col_stats (transpose r) = row_stats r \<and>
   transpose (transpose r) = r"
  by (simp add: transpose_def)

text \<open>
  C10. In each orientation the statistics that can be read form a prefix of (nonzeros, mean,
  variance): if the variance accessor succeeds so do the mean and nonzeros accessors, and if
  the mean accessor succeeds so does the nonzeros accessor.
\<close>

theorem computed_statistics_form_a_prefix:
  "(succeeds (rowVariance r) \<longrightarrow> succeeds (rowMean r) \<and> succeeds (rowNonzeros r)) \<and>
   (succeeds (rowMean r) \<longrightarrow> succeeds (rowNonzeros r)) \<and>
   (succeeds (colVariance r) \<longrightarrow> succeeds (colMean r) \<and> succeeds (colNonzeros r)) \<and>
   (succeeds (colMean r) \<longrightarrow> succeeds (colNonzeros r))"
  by (simp add: succeeds_def rowVariance_def rowMean_def rowNonzeros_def
      colVariance_def colMean_def colNonzeros_def)

text \<open>On the result with all three statistics every accessor succeeds; on the result with
  nonzero counts only, the mean accessor does not.\<close>

theorem computed_statistics_form_a_prefix_witness:
  "succeeds (rowVariance full_stats) \<and> succeeds (rowMean full_stats) \<and>
   succeeds (rowNonzeros full_stats) \<and> succeeds (colVariance full_stats) \<and>
   succeeds (colMean full_stats) \<and> succeeds (colNonzeros full_stats)"
proof -
  have "succeeds (rowVariance full_stats)" and "succeeds (colVariance full_stats)"
    by (simp_all add: succeeds_def rowVariance_def colVariance_def full_stats_def)
  with computed_statistics_form_a_prefix [of full_stats] show ?thesis
    by blast
qed

section \<open>Properties of the minimum transforms\<close>

subsection \<open>What each loop computes\<close>

declare Min_loop.simps [simp del] MinByRow_loop.simps [simp del] MinByCol_loop.simps [simp del]

lemma word_range_step:
  "(i::32 word) < cap \<Longrightarrow> (i \<le> j \<and> j < cap) = (j = i \<or> (i + 1 \<le> j \<and> j < cap))"
  by unat_arith

lemma Min_loop_valData:
  "valData (Min_loop fit cap i s) j =
     (if i \<le> j \<and> j < cap then std_min (valData s j) (global_params fit 0) else valData s j)"
proof (induction fit cap i s rule: Min_loop.induct)
  case (1 fit cap i s)
  show ?case
  proof (cases "i < cap")
    case True
    have "i + 1 \<le> j \<Longrightarrow> j \<noteq> i" using True by unat_arith
    with True "1" show ?thesis
      by (subst Min_loop.simps) (auto simp: word_range_step [OF True])
  next
    case False
    then have "\<not> (i \<le> j \<and> j < cap)" by unat_arith
    with False show ?thesis
      by (subst Min_loop.simps) auto
  qed
qed

lemma Min_loop_frame:
  "rowData (Min_loop fit cap i s) = rowData s \<and> capacity (Min_loop fit cap i s) = capacity s \<and>
   currentCol (Min_loop fit cap i s) = currentCol s \<and>
   loader_state.more (Min_loop fit cap i s) = loader_state.more s"
proof (induction fit cap i s rule: Min_loop.induct)
  case (1 fit cap i s)
  then show ?case
    by (subst (1 2 3 4) Min_loop.simps) simp
qed

lemma Min_loop_lookups:
  "lookups (Min_loop fit cap i s) = lookups s @ replicate (unat cap - unat i) (global_lookup 0)"
proof (induction fit cap i s rule: Min_loop.induct)
  case (1 fit cap i s)
  show ?case
  proof (cases "i < cap")
    case True
    then have "unat cap - unat i = Suc (unat cap - unat (i + 1))" by unat_arith
    with True "1" show ?thesis
      by (subst Min_loop.simps) (simp add: replicate_append_same)
  next
    case False
    then have "unat cap - unat i = 0" by unat_arith
    with False show ?thesis
      by (subst Min_loop.simps) simp
  qed
qed

lemma MinByRow_loop_frame:
  "rowData (MinByRow_loop fit cap i s) = rowData s \<and> capacity (MinByRow_loop fit cap i s) = capacity s \<and>
   currentCol (MinByRow_loop fit cap i s) = currentCol s \<and>
   loader_state.more (MinByRow_loop fit cap i s) = loader_state.more s"
proof (induction fit cap i s rule: MinByRow_loop.induct)
  case (1 fit cap i s)
  then show ?case
    by (subst (1 2 3 4) MinByRow_loop.simps) simp
qed

lemma MinByRow_loop_valData:
  "valData (MinByRow_loop fit cap i s) j =
     (if i \<le> j \<and> j < cap then std_min (valData s j) (row_params fit 0 (rowData s j)) else valData s j)"
proof (induction fit cap i s rule: MinByRow_loop.induct)
  case (1 fit cap i s)
  show ?case
  proof (cases "i < cap")
    case True
    have "i + 1 \<le> j \<Longrightarrow> j \<noteq> i" using True by unat_arith
    with True "1" show ?thesis
      by (subst MinByRow_loop.simps) (auto simp: word_range_step [OF True])
  next
    case False
    then have "\<not> (i \<le> j \<and> j < cap)" by unat_arith
    with False show ?thesis
      by (subst MinByRow_loop.simps) auto
  qed
qed

lemma MinByRow_loop_lookups:
  "lookups (MinByRow_loop fit cap i s) =
     lookups s @ map (\<lambda>k. row_lookup 0 (rowData s (of_nat k))) [unat i..<unat cap]"
proof (induction fit cap i s rule: MinByRow_loop.induct)
  case (1 fit cap i s)
  show ?case
  proof (cases "i < cap")
    case True
    then have "unat i < unat cap" and "unat (i + 1) = Suc (unat i)" by unat_arith+
    then have "[unat i..<unat cap] = unat i # [unat (i + 1)..<unat cap]"
      by (simp add: upt_conv_Cons)
    with True "1" show ?thesis
      by (subst MinByRow_loop.simps) simp
  next
    case False
    then have "unat cap \<le> unat i" by unat_arith
    with False show ?thesis
      by (subst MinByRow_loop.simps) simp
  qed
qed

lemma MinByCol_loop_frame:
  "rowData (MinByCol_loop m cap i s) = rowData s \<and> capacity (MinByCol_loop m cap i s) = capacity s \<and>
   currentCol (MinByCol_loop m cap i s) = currentCol s \<and>
   lookups (MinByCol_loop m cap i s) = lookups s \<and>
   loader_state.more (MinByCol_loop m cap i s) = loader_state.more s"
proof (induction m cap i s rule: MinByCol_loop.induct)
  case (1 m cap i s)
  then show ?case
    by (subst (1 2 3 4 5) MinByCol_loop.simps) simp
qed

lemma MinByCol_loop_valData:
  "valData (MinByCol_loop m cap i s) j =
     (if i \<le> j \<and> j < cap then std_min (valData s j) m else valData s j)"
proof (induction m cap i s rule: MinByCol_loop.induct)
  case (1 m cap i s)
  show ?case
  proof (cases "i < cap")
    case True
    have "i + 1 \<le> j \<Longrightarrow> j \<noteq> i" using True by unat_arith
    with True "1" show ?thesis
      by (subst MinByCol_loop.simps) (auto simp: word_range_step [OF True])
  next
    case False
    then have "\<not> (i \<le> j \<and> j < cap)" by unat_arith
    with False show ?thesis
      by (subst MinByCol_loop.simps) auto
  qed
qed

lemma Min_load_True:
  "loader s = (True, s') \<Longrightarrow> Min_load fit loader s = (True, Min_loop fit (capacity s') 0 s')"
  by (simp add: Min_load_def)

lemma MinByRow_load_True:
  "loader s = (True, s') \<Longrightarrow> MinByRow_load fit loader s = (True, MinByRow_loop fit (capacity s') 0 s')"
  by (simp add: MinByRow_load_def)

lemma MinByCol_load_True:
  "loader s = (True, s') \<Longrightarrow>
   MinByCol_load fit loader s =
     (True, MinByCol_loop (col_params fit 0 (currentCol s')) (capacity s') 0
        (s'\<lparr>lookups := lookups s' @ [col_lookup 0 (currentCol s')]\<rparr>))"
  by (simp add: MinByCol_load_def)

lemma Min_loop_cong:
  "global_params fit 0 = global_params fit' 0 \<Longrightarrow> Min_loop fit cap i s = Min_loop fit' cap i s"
proof (induction fit cap i s rule: Min_loop.induct)
  case (1 fit cap i s)
  then show ?case
    by (subst Min_loop.simps, subst (2) Min_loop.simps) simp
qed

lemma MinByRow_loop_cong:
  "\<forall>r. row_params fit 0 r = row_params fit' 0 r \<Longrightarrow>
   MinByRow_loop fit cap i s = MinByRow_loop fit' cap i s"
proof (induction fit cap i s rule: MinByRow_loop.induct)
  case (1 fit cap i s)
  then show ?case
    by (subst MinByRow_loop.simps, subst (2) MinByRow_loop.simps) simp
qed

subsection \<open>Facts about \<open>std::min\<close> on doubles\<close>

lemma std_min_key: "\<not> isnan a \<Longrightarrow> \<not> isnan p \<Longrightarrow> key (std_min a p) = min (key a) (key p)"
  by (simp add: std_min_def dless_def)

lemma std_min_dle_value: "\<not> isnan a \<Longrightarrow> dle (std_min a p) a"
  by (simp add: std_min_def dless_def dle_def)

lemma std_min_dle_param: "\<not> isnan a \<Longrightarrow> \<not> isnan p \<Longrightarrow> dle (std_min a p) p"
  by (simp add: std_min_def dless_def dle_def)

lemma uint_eq_neg: "uint (x::63 word) = - uint (y::63 word) \<Longrightarrow> x = 0 \<and> y = 0"
proof -
  assume h: "uint x = - uint y"
  have "0 \<le> uint x" and "0 \<le> uint y" by simp_all
  with h have "uint x = 0" and "uint y = 0" by linarith+
  then show ?thesis by (simp add: uint_0_iff)
qed

lemma key_eq_cases: "key a = key b \<Longrightarrow> a = b \<or> (magnitude a = 0 \<and> magnitude b = 0)"
proof (cases a; cases b)
  fix sa ma sb mb
  assume k: "key a = key b" and a: "a = Double sa ma" and b: "b = Double sb mb"
  show ?thesis
  proof (cases "sa = sb")
    case True
    with k a b have "uint ma = uint mb" by (simp add: key_def split: if_splits)
    then have "ma = mb" by (simp add: word_uint_eq_iff)
    with True a b show ?thesis by simp
  next
    case False
    with k a b have "uint ma = - uint mb \<or> uint mb = - uint ma"
      by (auto simp: key_def split: if_splits)
    then have "ma = 0 \<and> mb = 0" using uint_eq_neg by blast
    with a b show ?thesis by simp
  qed
qed

lemma deq_cases: "deq a b \<Longrightarrow> a = b \<or> (magnitude a = 0 \<and> magnitude b = 0)"
  by (simp add: deq_def key_eq_cases)

lemma std_min_commute:
  "std_min (std_min v r) c = std_min (std_min v c) r \<or> deq (std_min (std_min v r) c) (std_min (std_min v c) r)"
  by (auto simp: std_min_def dless_def deq_def)

lemma std_min_order:
  "std_min (std_min v r) c = std_min (std_min v c) r \<or>
   magnitude (std_min (std_min v r) c) = 0 \<and> magnitude (std_min (std_min v c) r) = 0"
  using std_min_commute [of v r c] deq_cases by blast

lemma example_mins:
  "std_min d_one d_two = d_one" "std_min d_five d_two = d_two" "std_min d_three d_two = d_two"
  "std_min d_one d_zero = d_zero" "std_min d_five d_ten = d_five" "std_min d_three d_one = d_one"
  "std_min d_one d_four = d_one" "std_min d_five d_four = d_four" "std_min d_three d_four = d_three"
  "std_min d_one d_nan = d_one" "std_min d_nan d_two = d_nan"
  by (simp_all add: std_min_def dless_def isnan_def key_def d_zero_def d_one_def d_two_def
      d_three_def d_four_def d_five_def d_ten_def d_nan_def)

section \<open>The claims about the minimum transforms\<close>

text \<open>
  In the theorems below \<open>loader\<close> is the upstream of the stage, \<open>s\<close> the state before the
  call of \<open>load()\<close>, \<open>s'\<close> the state the upstream leaves (the chunk as the upstream produced
  it), and \<open>s''\<close> the state the stage leaves. An entry of the chunk is an offset \<open>i\<close> below
  \<open>capacity s'\<close>.
\<close>

text \<open>
  C1, as stated: after a global-mode minimum stage every entry equals
  \<open>min(original, p)\<close> with \<open>p = fit.global_params(0)\<close>, and is \<open>\<le>\<close> the original value and
  \<open>\<le> p\<close>. The comparisons fail when a NaN is involved: with \<open>p\<close> a NaN the entry 1.0 is left as
  it is and \<open>1.0 <= NaN\<close> is false; a NaN entry is left as it is and \<open>NaN <= NaN\<close> is false.
\<close>

theorem Min_load_nan_counterexample:
  "fst (Min_load nan_fit (source_of example_chunk) example_chunk) \<and>
   valData (snd (Min_load nan_fit (source_of example_chunk) example_chunk)) 0 = d_one \<and>
   \<not> dle (valData (snd (Min_load nan_fit (source_of example_chunk) example_chunk)) 0)
      (global_params nan_fit 0) \<and>
   fst (Min_load example_fit (source_of nan_chunk) nan_chunk) \<and>
   valData (snd (Min_load example_fit (source_of nan_chunk) nan_chunk)) 1 = d_nan \<and>
   \<not> dle (valData (snd (Min_load example_fit (source_of nan_chunk) nan_chunk)) 1)
      (valData nan_chunk 1)"
proof -
  have l: "Min_load nan_fit (source_of example_chunk) example_chunk =
      (True, Min_loop nan_fit (capacity example_chunk) 0 example_chunk)"
    "Min_load example_fit (source_of nan_chunk) nan_chunk =
      (True, Min_loop example_fit (capacity nan_chunk) 0 nan_chunk)"
    by (simp_all add: Min_load_def source_of_def)
  have c: "(0::32 word) < capacity example_chunk" "(1::32 word) < capacity nan_chunk"
    "valData example_chunk 0 = d_one" "valData nan_chunk 1 = d_nan"
    "global_params nan_fit 0 = d_nan" "global_params example_fit 0 = d_two"
    by (simp_all add: example_chunk_def nan_chunk_def nan_fit_def example_fit_def)
  have n: "\<not> dle d_one d_nan" "\<not> dle d_nan d_nan"
    by (simp_all add: dle_def isnan_def d_nan_def)
  show ?thesis
    by (simp add: l Min_loop_valData c example_mins n)
qed

text \<open>
  C1, amended: for every chunk successfully pulled through a global-mode minimum stage and
  every entry \<open>i\<close>, the value after \<open>load()\<close> is \<open>std::min(original, p)\<close> with
  \<open>p = fit.global_params(0)\<close>; it is \<open>\<le>\<close> the original value when the original value is not a
  NaN, and it is \<open>\<le> p\<close> and the lesser of the two when neither the original value nor \<open>p\<close> is
  a NaN.
\<close>

theorem Min_load_clamps_unless_nan:
  assumes "loader s = (True, s')" and "Min_load fit loader s = (ok, s'')" and "i < capacity s'"
  shows "ok \<and> valData s'' i = std_min (valData s' i) (global_params fit 0) \<and>
    (\<not> isnan (valData s' i) \<longrightarrow> dle (valData s'' i) (valData s' i)) \<and>
    (\<not> isnan (valData s' i) \<and> \<not> isnan (global_params fit 0) \<longrightarrow>
       dle (valData s'' i) (global_params fit 0) \<and>
       key (valData s'' i) = min (key (valData s' i)) (key (global_params fit 0)))"
proof -
  from assms(1,2) have ok: "ok" and s'': "s'' = Min_loop fit (capacity s') 0 s'"
    by (simp_all add: Min_load_True)
  from s'' assms(3) have v: "valData s'' i = std_min (valData s' i) (global_params fit 0)"
    by (simp add: Min_loop_valData)
  show ?thesis
    unfolding v using ok by (simp add: std_min_dle_value std_min_dle_param std_min_key)
qed

text \<open>Global minimum with parameter 2 on the values 1, 5, 3: the entry 5 becomes 2.\<close>

theorem Min_load_clamps_unless_nan_witness:
  "source_of example_chunk example_chunk = (True, example_chunk) \<and>
   (1::32 word) < capacity example_chunk \<and>
   \<not> isnan (valData example_chunk 1) \<and> \<not> isnan (global_params example_fit 0) \<and>
   valData (snd (Min_load example_fit (source_of example_chunk) example_chunk)) 1 = d_two \<and>
   dle (valData (snd (Min_load example_fit (source_of example_chunk) example_chunk)) 1) d_five \<and>
   dle (valData (snd (Min_load example_fit (source_of example_chunk) example_chunk)) 1) d_two"
proof -
  have h1: "source_of example_chunk example_chunk = (True, example_chunk)"
    by (simp add: source_of_def)
  have h2: "(1::32 word) < capacity example_chunk"
    by (simp add: example_chunk_def)
  have h3: "\<not> isnan (valData example_chunk 1)" "\<not> isnan (global_params example_fit 0)"
    by (simp_all add: example_chunk_def example_fit_def isnan_def d_five_def d_two_def)
  have v: "valData example_chunk 1 = d_five" "global_params example_fit 0 = d_two"
    by (simp_all add: example_chunk_def example_fit_def)
  have m: "std_min d_five d_two = d_two"
    by (simp add: std_min_def dless_def isnan_def key_def d_five_def d_two_def)
  have h4: "Min_load example_fit (source_of example_chunk) example_chunk =
      (fst (Min_load example_fit (source_of example_chunk) example_chunk),
       snd (Min_load example_fit (source_of example_chunk) example_chunk))"
    by simp
  from Min_load_clamps_unless_nan [OF h1 h4 h2] h1 h2 h3 show ?thesis
    by (auto simp: v m)
qed

text \<open>
  C2. For every chunk successfully pulled through a per-row minimum stage and every entry
  \<open>i\<close>, the value after \<open>load()\<close> is \<open>std::min(original, fit.row_params(0, rowIndex[i]))\<close>. The
  parameter depends on the entry's row index only: an entry \<open>j\<close> of any other chunk \<open>t'\<close>
  (whatever its column) that has the same row index is clamped with the same parameter.
\<close>

theorem MinByRow_load_param_depends_on_row_only:
  assumes "loader s = (True, s')" and "MinByRow_load fit loader s = (ok, s'')"
    and "i < capacity s'"
    and "loader2 t = (True, t')" and "MinByRow_load fit loader2 t = (ok2, t'')"
    and "j < capacity t'" and "rowData t' j = rowData s' i"
  shows "ok \<and> valData s'' i = std_min (valData s' i) (row_params fit 0 (rowData s' i)) \<and>
    valData t'' j = std_min (valData t' j) (row_params fit 0 (rowData s' i))"
proof -
  from assms(1,2) have "ok" and "s'' = MinByRow_loop fit (capacity s') 0 s'"
    by (simp_all add: MinByRow_load_True)
  moreover from assms(4,5) have "t'' = MinByRow_loop fit (capacity t') 0 t'"
    by (simp add: MinByRow_load_True)
  ultimately show ?thesis
    using assms(3,6,7) by (simp add: MinByRow_loop_valData)
qed

text \<open>Row minimum on the values 1, 5, 3 at rows 0, 2, 4: the entry of row 4 becomes 1, in
  column 0 and in column 1 alike.\<close>

theorem MinByRow_load_param_depends_on_row_only_witness:
  "source_of example_chunk example_chunk = (True, example_chunk) \<and>
   source_of example_chunk_col1 example_chunk = (True, example_chunk_col1) \<and>
   (2::32 word) < capacity example_chunk \<and> (2::32 word) < capacity example_chunk_col1 \<and>
   rowData example_chunk_col1 2 = rowData example_chunk 2 \<and>
   currentCol example_chunk_col1 \<noteq> currentCol example_chunk \<and>
   valData (snd (MinByRow_load example_fit (source_of example_chunk) example_chunk)) 2 = d_one \<and>
   valData (snd (MinByRow_load example_fit (source_of example_chunk_col1) example_chunk)) 2 = d_one"
proof -
  have h1: "source_of example_chunk example_chunk = (True, example_chunk)"
    and h4: "source_of example_chunk_col1 example_chunk = (True, example_chunk_col1)"
    by (simp_all add: source_of_def)
  have h3: "(2::32 word) < capacity example_chunk"
    and h6: "(2::32 word) < capacity example_chunk_col1"
    and h7: "rowData example_chunk_col1 2 = rowData example_chunk 2"
    and h8: "currentCol example_chunk_col1 \<noteq> currentCol example_chunk"
    by (simp_all add: example_chunk_def example_chunk_col1_def)
  have h2: "MinByRow_load example_fit (source_of example_chunk) example_chunk =
      (fst (MinByRow_load example_fit (source_of example_chunk) example_chunk),
       snd (MinByRow_load example_fit (source_of example_chunk) example_chunk))"
    and h5: "MinByRow_load example_fit (source_of example_chunk_col1) example_chunk =
      (fst (MinByRow_load example_fit (source_of example_chunk_col1) example_chunk),
       snd (MinByRow_load example_fit (source_of example_chunk_col1) example_chunk))"
    by simp_all
  have v: "valData example_chunk 2 = d_three" "valData example_chunk_col1 2 = d_three"
    "row_params example_fit 0 (rowData example_chunk 2) = d_one"
    by (simp_all add: example_chunk_def example_chunk_col1_def example_fit_def)
  from MinByRow_load_param_depends_on_row_only [OF h1 h2 h3 h4 h5 h6 h7] h1 h3 h4 h6 h7 h8 show ?thesis
    by (auto simp: v example_mins)
qed

text \<open>
  C3. For every chunk successfully pulled through a per-column minimum stage, every entry is
  clamped with the one parameter \<open>fit.col_params(0, currentCol())\<close>, which is looked up once
  for the chunk. The parameter is a function of the chunk's current column, so chunks of
  different columns may be clamped with different parameters.
\<close>

theorem MinByCol_load_one_param_per_chunk:
  assumes "loader s = (True, s')" and "MinByCol_load fit loader s = (ok, s'')"
  shows "ok \<and>
    (\<forall>i. i < capacity s' \<longrightarrow>
       valData s'' i = std_min (valData s' i) (col_params fit 0 (currentCol s'))) \<and>
    lookups s'' = lookups s' @ [col_lookup 0 (currentCol s')]"
proof -
  from assms have "ok" and "s'' = MinByCol_loop (col_params fit 0 (currentCol s')) (capacity s') 0
      (s'\<lparr>lookups := lookups s' @ [col_lookup 0 (currentCol s')]\<rparr>)"
    by (simp_all add: MinByCol_load_True)
  then show ?thesis
    by (simp add: MinByCol_loop_valData MinByCol_loop_frame)
qed

text \<open>Column minimum on the values 1, 5, 3: in column 0 (parameter 4) the entries 5 and 3
  become 4 and 3; in column 1 (parameter 2) they both become 2.\<close>

theorem MinByCol_load_one_param_per_chunk_witness:
  "source_of example_chunk example_chunk = (True, example_chunk) \<and>
   source_of example_chunk_col1 example_chunk = (True, example_chunk_col1) \<and>
   (1::32 word) < capacity example_chunk \<and> (2::32 word) < capacity example_chunk \<and>
   valData (snd (MinByCol_load example_fit (source_of example_chunk) example_chunk)) 1 = d_four \<and>
   valData (snd (MinByCol_load example_fit (source_of example_chunk) example_chunk)) 2 = d_three \<and>
   lookups (snd (MinByCol_load example_fit (source_of example_chunk) example_chunk)) = [col_lookup 0 0] \<and>
   valData (snd (MinByCol_load example_fit (source_of example_chunk_col1) example_chunk)) 1 = d_two \<and>
   valData (snd (MinByCol_load example_fit (source_of example_chunk_col1) example_chunk)) 2 = d_two \<and>
   lookups (snd (MinByCol_load example_fit (source_of example_chunk_col1) example_chunk)) = [col_lookup 0 1]"
proof -
  have h1: "source_of example_chunk example_chunk = (True, example_chunk)"
    and h2: "source_of example_chunk_col1 example_chunk = (True, example_chunk_col1)"
    by (simp_all add: source_of_def)
  have c: "(1::32 word) < capacity example_chunk" "(2::32 word) < capacity example_chunk"
    "capacity example_chunk_col1 = capacity example_chunk"
    by (simp_all add: example_chunk_def example_chunk_col1_def)
  have v: "valData example_chunk 1 = d_five" "valData example_chunk 2 = d_three"
    "valData example_chunk_col1 = valData example_chunk"
    "col_params example_fit 0 0 = d_four" "col_params example_fit 0 1 = d_two"
    "currentCol example_chunk = 0" "currentCol example_chunk_col1 = 1"
    "lookups example_chunk = []" "lookups example_chunk_col1 = []"
    by (simp_all add: example_chunk_def example_chunk_col1_def example_fit_def)
  have p1: "MinByCol_load example_fit (source_of example_chunk) example_chunk =
      (fst (MinByCol_load example_fit (source_of example_chunk) example_chunk),
       snd (MinByCol_load example_fit (source_of example_chunk) example_chunk))"
    and p2: "MinByCol_load example_fit (source_of example_chunk_col1) example_chunk =
      (fst (MinByCol_load example_fit (source_of example_chunk_col1) example_chunk),
       snd (MinByCol_load example_fit (source_of example_chunk_col1) example_chunk))"
    by simp_all
  from MinByCol_load_one_param_per_chunk [OF h1 p1] MinByCol_load_one_param_per_chunk [OF h2 p2] h1 h2 c show ?thesis
    by (auto simp: v example_mins)
qed

text \<open>
  C4, as stated: there are chunk contents and parameters for which minimum-by-row then
  minimum-by-column yields a different result array than the reverse order. There are none:
  whatever the provider, the upstream, the state and the offset, the two values left by the
  two orders are the same double or compare equal.
\<close>

theorem min_stage_order_counterexample:
  "\<not> (\<exists>fr fc (loader :: unit loader) s i.
        valData (snd (MinByCol_load fc (MinByRow_load fr loader) s)) i \<noteq>
          valData (snd (MinByRow_load fr (MinByCol_load fc loader) s)) i \<and>
        \<not> deq (valData (snd (MinByCol_load fc (MinByRow_load fr loader) s)) i)
               (valData (snd (MinByRow_load fr (MinByCol_load fc loader) s)) i))"
proof
  assume "\<exists>fr fc (loader :: unit loader) s i.
        valData (snd (MinByCol_load fc (MinByRow_load fr loader) s)) i \<noteq>
          valData (snd (MinByRow_load fr (MinByCol_load fc loader) s)) i \<and>
        \<not> deq (valData (snd (MinByCol_load fc (MinByRow_load fr loader) s)) i)
               (valData (snd (MinByRow_load fr (MinByCol_load fc loader) s)) i)"
  then obtain fr fc and loader :: "unit loader" and s i where
    ne: "valData (snd (MinByCol_load fc (MinByRow_load fr loader) s)) i \<noteq>
          valData (snd (MinByRow_load fr (MinByCol_load fc loader) s)) i"
    and nd: "\<not> deq (valData (snd (MinByCol_load fc (MinByRow_load fr loader) s)) i)
               (valData (snd (MinByRow_load fr (MinByCol_load fc loader) s)) i)"
    by blast
  obtain ok s' where l: "loader s = (ok, s')" by (cases "loader s")
  show False
  proof (cases ok)
    case False
    with l have "MinByCol_load fc (MinByRow_load fr loader) s = (False, s')"
      and "MinByRow_load fr (MinByCol_load fc loader) s = (False, s')"
      by (simp_all add: MinByCol_load_def MinByRow_load_def)
    with ne show False by simp
  next
    case True
    with l have t: "loader s = (True, s')" by simp
    have a: "valData (snd (MinByCol_load fc (MinByRow_load fr loader) s)) i =
      (if i < capacity s'
       then std_min (std_min (valData s' i) (row_params fr 0 (rowData s' i)))
              (col_params fc 0 (currentCol s'))
       else valData s' i)"
      and b: "valData (snd (MinByRow_load fr (MinByCol_load fc loader) s)) i =
      (if i < capacity s'
       then std_min (std_min (valData s' i) (col_params fc 0 (currentCol s')))
              (row_params fr 0 (rowData s' i))
       else valData s' i)"
      using t
      by (simp_all add: MinByCol_load_def MinByRow_load_def MinByCol_loop_frame
          MinByRow_loop_frame MinByCol_loop_valData MinByRow_loop_valData)
    from ne nd show False
      unfolding a b using std_min_commute by (cases "i < capacity s'") auto
  qed
qed

text \<open>
  C4, amended: for the minimum stages the chain order does not change the values. For every
  chunk successfully pulled, both orders leave, at every offset, the same double, or two
  zeros (which compare equal and can differ in sign only). The stages apply in the declared
  wrap order, outermost last: in the chain with minimum-by-column outermost the row parameter
  is applied to the upstream value and the column parameter to the result, and the row lookups
  are made before the column lookup; in the chain with minimum-by-row outermost it is the
  other way round.
\<close>

theorem min_stages_same_values_in_wrap_order:
  assumes "loader s = (True, s')"
  shows "valData (snd (MinByCol_load fc (MinByRow_load fr loader) s)) i =
      (if i < capacity s'
       then std_min (std_min (valData s' i) (row_params fr 0 (rowData s' i)))
              (col_params fc 0 (currentCol s'))
       else valData s' i) \<and>
    valData (snd (MinByRow_load fr (MinByCol_load fc loader) s)) i =
      (if i < capacity s'
       then std_min (std_min (valData s' i) (col_params fc 0 (currentCol s')))
              (row_params fr 0 (rowData s' i))
       else valData s' i) \<and>
    lookups (snd (MinByCol_load fc (MinByRow_load fr loader) s)) =
      lookups s' @ map (\<lambda>k. row_lookup 0 (rowData s' (of_nat k))) [0..<unat (capacity s')] @
      [col_lookup 0 (currentCol s')] \<and>
    lookups (snd (MinByRow_load fr (MinByCol_load fc loader) s)) =
      lookups s' @ [col_lookup 0 (currentCol s')] @
      map (\<lambda>k. row_lookup 0 (rowData s' (of_nat k))) [0..<unat (capacity s')] \<and>
    (valData (snd (MinByCol_load fc (MinByRow_load fr loader) s)) i =
       valData (snd (MinByRow_load fr (MinByCol_load fc loader) s)) i \<or>
     magnitude (valData (snd (MinByCol_load fc (MinByRow_load fr loader) s)) i) = 0 \<and>
     magnitude (valData (snd (MinByRow_load fr (MinByCol_load fc loader) s)) i) = 0)"
proof -
  have rc: "MinByCol_load fc (MinByRow_load fr loader) s =
      (True, MinByCol_loop (col_params fc 0 (currentCol s')) (capacity s') 0
         ((MinByRow_loop fr (capacity s') 0 s')
            \<lparr>lookups := lookups (MinByRow_loop fr (capacity s') 0 s') @ [col_lookup 0 (currentCol s')]\<rparr>))"
    using assms by (simp add: MinByCol_load_def MinByRow_load_def MinByRow_loop_frame)
  have cr: "MinByRow_load fr (MinByCol_load fc loader) s =
      (True, MinByRow_loop fr (capacity s') 0
         (MinByCol_loop (col_params fc 0 (currentCol s')) (capacity s') 0
            (s'\<lparr>lookups := lookups s' @ [col_lookup 0 (currentCol s')]\<rparr>)))"
    using assms by (simp add: MinByCol_load_def MinByRow_load_def MinByCol_loop_frame)
  have a: "valData (snd (MinByCol_load fc (MinByRow_load fr loader) s)) i =
      (if i < capacity s'
       then std_min (std_min (valData s' i) (row_params fr 0 (rowData s' i)))
              (col_params fc 0 (currentCol s'))
       else valData s' i)"
    by (simp add: rc MinByCol_loop_valData MinByRow_loop_valData)
  have b: "valData (snd (MinByRow_load fr (MinByCol_load fc loader) s)) i =
      (if i < capacity s'
       then std_min (std_min (valData s' i) (col_params fc 0 (currentCol s')))
              (row_params fr 0 (rowData s' i))
       else valData s' i)"
    by (simp add: cr MinByCol_loop_valData MinByRow_loop_valData MinByCol_loop_frame)
  have la: "lookups (snd (MinByCol_load fc (MinByRow_load fr loader) s)) =
      lookups s' @ map (\<lambda>k. row_lookup 0 (rowData s' (of_nat k))) [0..<unat (capacity s')] @
      [col_lookup 0 (currentCol s')]"
    by (simp add: rc MinByCol_loop_frame MinByRow_loop_lookups)
  have lb: "lookups (snd (MinByRow_load fr (MinByCol_load fc loader) s)) =
      lookups s' @ [col_lookup 0 (currentCol s')] @
      map (\<lambda>k. row_lookup 0 (rowData s' (of_nat k))) [0..<unat (capacity s')]"
    by (simp add: cr MinByCol_loop_frame MinByRow_loop_lookups)
  have e: "valData (snd (MinByCol_load fc (MinByRow_load fr loader) s)) i =
       valData (snd (MinByRow_load fr (MinByCol_load fc loader) s)) i \<or>
     magnitude (valData (snd (MinByCol_load fc (MinByRow_load fr loader) s)) i) = 0 \<and>
     magnitude (valData (snd (MinByRow_load fr (MinByCol_load fc loader) s)) i) = 0"
    unfolding a b by (simp add: std_min_order)
  from a b la lb e show ?thesis by blast
qed

text \<open>On the values 1, 5, 3 both orders leave 4 at the entry 5 (row parameter 10, column
  parameter 4), with the lookups made in wrap order. With row parameter \<open>-0.0\<close> and column
  parameter \<open>0.0\<close> the entry 1 becomes \<open>-0.0\<close> in one order and \<open>0.0\<close> in the other.\<close>

theorem min_stages_same_values_in_wrap_order_witness:
  "source_of example_chunk example_chunk = (True, example_chunk) \<and>
   valData (snd (MinByCol_load example_fit (MinByRow_load example_fit (source_of example_chunk))
      example_chunk)) 1 = d_four \<and>
   valData (snd (MinByRow_load example_fit (MinByCol_load example_fit (source_of example_chunk))
      example_chunk)) 1 = d_four \<and>
   lookups (snd (MinByCol_load example_fit (MinByRow_load example_fit (source_of example_chunk))
      example_chunk)) = [row_lookup 0 0, row_lookup 0 2, row_lookup 0 4, col_lookup 0 0] \<and>
   lookups (snd (MinByRow_load example_fit (MinByCol_load example_fit (source_of example_chunk))
      example_chunk)) = [col_lookup 0 0, row_lookup 0 0, row_lookup 0 2, row_lookup 0 4] \<and>
   valData (snd (MinByCol_load zero_fit (MinByRow_load zero_fit (source_of example_chunk))
      example_chunk)) 0 = d_neg_zero \<and>
   valData (snd (MinByRow_load zero_fit (MinByCol_load zero_fit (source_of example_chunk))
      example_chunk)) 0 = d_zero"
proof -
  have h: "source_of example_chunk example_chunk = (True, example_chunk)"
    by (simp add: source_of_def)
  have c: "(0::32 word) < capacity example_chunk" "(1::32 word) < capacity example_chunk"
    "unat (capacity example_chunk) = 3" "lookups example_chunk = []"
    "currentCol example_chunk = 0"
    "rowData example_chunk 0 = 0" "rowData example_chunk 1 = 2" "rowData example_chunk 2 = 4"
    "valData example_chunk 0 = d_one" "valData example_chunk 1 = d_five"
    by (simp_all add: example_chunk_def)
  have p: "row_params example_fit 0 2 = d_ten" "col_params example_fit 0 0 = d_four"
    "row_params zero_fit 0 0 = d_neg_zero" "col_params zero_fit 0 0 = d_zero"
    by (simp_all add: example_fit_def zero_fit_def)
  have m: "std_min d_five d_ten = d_five" "std_min d_five d_four = d_four"
    "std_min d_four d_ten = d_four" "std_min d_one d_neg_zero = d_neg_zero"
    "std_min d_neg_zero d_zero = d_neg_zero" "std_min d_one d_zero = d_zero"
    "std_min d_zero d_neg_zero = d_zero"
    by (simp_all add: std_min_def dless_def isnan_def key_def d_zero_def d_neg_zero_def
        d_one_def d_four_def d_five_def d_ten_def)
  have u: "[0..<3] = [0, 1, 2]"
    by (simp add: upt_rec numeral_3_eq_3)
  from min_stages_same_values_in_wrap_order [where loader = "source_of example_chunk" and s = example_chunk
      and s' = example_chunk and fr = example_fit and fc = example_fit and i = 1]
    min_stages_same_values_in_wrap_order [where loader = "source_of example_chunk" and s = example_chunk
      and s' = example_chunk and fr = zero_fit and fc = zero_fit and i = 0] h
  show ?thesis
    by (simp add: c p m u)
qed

text \<open>
  C7. For each of the three minimum stages the boolean returned by \<open>load()\<close> is the boolean
  the upstream returned. When the upstream returns false the stage leaves the state exactly
  as the upstream left it: no value is changed and no parameter is looked up.
\<close>

theorem min_stages_propagate_upstream_result:
  "fst (Min_load fit loader s) = fst (loader s) \<and>
   fst (MinByRow_load fit loader s) = fst (loader s) \<and>
   fst (MinByCol_load fit loader s) = fst (loader s) \<and>
   (\<not> fst (loader s) \<longrightarrow>
      snd (Min_load fit loader s) = snd (loader s) \<and>
      snd (MinByRow_load fit loader s) = snd (loader s) \<and>
      snd (MinByCol_load fit loader s) = snd (loader s))"
  by (cases "loader s") (simp add: Min_load_def MinByRow_load_def MinByCol_load_def Let_def)

text \<open>On an exhausted upstream the three stages return false and leave the chunk and the
  (empty) record of lookups as they were; on a successful upstream the stage returns true.\<close>

theorem min_stages_propagate_upstream_result_witness:
  "\<not> fst (exhausted example_chunk) \<and>
   Min_load example_fit exhausted example_chunk = (False, example_chunk) \<and>
   MinByRow_load example_fit exhausted example_chunk = (False, example_chunk) \<and>
   MinByCol_load example_fit exhausted example_chunk = (False, example_chunk) \<and>
   fst (Min_load example_fit (source_of example_chunk) example_chunk)"
proof -
  have e: "exhausted example_chunk = (False, example_chunk)"
    and t: "source_of example_chunk example_chunk = (True, example_chunk)"
    by (simp_all add: exhausted_def source_of_def)
  from min_stages_propagate_upstream_result [of example_fit exhausted example_chunk]
    min_stages_propagate_upstream_result [of example_fit "source_of example_chunk" example_chunk]
  show ?thesis
    by (simp add: e t prod_eq_iff)
qed

text \<open>
  C8. For every chunk successfully pulled through any of the three minimum stages, the
  row indices, the capacity, the current column and any further state of the upstream are as
  the upstream left them; of the value buffer only the entries below the capacity can change.
  (The record of lookups is instrumentation of the read-only provider, not state of the
  chunk.)
\<close>

theorem min_stages_change_values_only:
  assumes "loader s = (True, s')"
  shows "rowData (snd (Min_load fit loader s)) = rowData s' \<and>
    capacity (snd (Min_load fit loader s)) = capacity s' \<and>
    currentCol (snd (Min_load fit loader s)) = currentCol s' \<and>
    loader_state.more (snd (Min_load fit loader s)) = loader_state.more s' \<and>
    (\<not> j < capacity s' \<longrightarrow> valData (snd (Min_load fit loader s)) j = valData s' j) \<and>
    rowData (snd (MinByRow_load fit loader s)) = rowData s' \<and>
    capacity (snd (MinByRow_load fit loader s)) = capacity s' \<and>
    currentCol (snd (MinByRow_load fit loader s)) = currentCol s' \<and>
    loader_state.more (snd (MinByRow_load fit loader s)) = loader_state.more s' \<and>
    (\<not> j < capacity s' \<longrightarrow> valData (snd (MinByRow_load fit loader s)) j = valData s' j) \<and>
    rowData (snd (MinByCol_load fit loader s)) = rowData s' \<and>
    capacity (snd (MinByCol_load fit loader s)) = capacity s' \<and>
    currentCol (snd (MinByCol_load fit loader s)) = currentCol s' \<and>
    loader_state.more (snd (MinByCol_load fit loader s)) = loader_state.more s' \<and>
    (\<not> j < capacity s' \<longrightarrow> valData (snd (MinByCol_load fit loader s)) j = valData s' j)"
  using assms
  by (simp add: Min_load_True MinByRow_load_True MinByCol_load_True
      Min_loop_frame MinByRow_loop_frame MinByCol_loop_frame
      Min_loop_valData MinByRow_loop_valData MinByCol_loop_valData)

text \<open>After the stages the example chunk still has row index 2 at entry 1, capacity 3 and
  column 0, and the value at offset 3, beyond the capacity, is untouched.\<close>

theorem min_stages_change_values_only_witness:
  "source_of example_chunk example_chunk = (True, example_chunk) \<and>
   \<not> (3::32 word) < capacity example_chunk \<and>
   rowData (snd (MinByRow_load example_fit (source_of example_chunk) example_chunk)) 1 = 2 \<and>
   capacity (snd (Min_load example_fit (source_of example_chunk) example_chunk)) = 3 \<and>
   currentCol (snd (MinByCol_load example_fit (source_of example_chunk) example_chunk)) = 0 \<and>
   valData (snd (Min_load example_fit (source_of example_chunk) example_chunk)) 3 = d_zero"
proof -
  have h: "source_of example_chunk example_chunk = (True, example_chunk)"
    by (simp add: source_of_def)
  have c: "\<not> (3::32 word) < capacity example_chunk" "rowData example_chunk 1 = 2"
    "capacity example_chunk = 3" "currentCol example_chunk = 0" "valData example_chunk 3 = d_zero"
    by (simp_all add: example_chunk_def)
  from min_stages_change_values_only [where loader = "source_of example_chunk" and s = example_chunk
      and s' = example_chunk and fit = example_fit and j = 3] h c
  show ?thesis
    by simp
qed

text \<open>
  C9. Every minimum stage uses the provider at parameter index 0 only. For every chunk
  successfully pulled and every entry \<open>i\<close>, \<open>Min\<close> leaves \<open>std::min(original, global_params(0))\<close>,
  \<open>MinByRow\<close> leaves \<open>std::min(original, row_params(0, rowIndex[i]))\<close> and \<open>MinByCol\<close> leaves
  \<open>std::min(original, col_params(0, currentCol()))\<close>. Every lookup made is at index 0: \<open>Min\<close> reads
  \<open>global_params(0)\<close> once per entry, \<open>MinByRow\<close> reads \<open>row_params(0, row)\<close> for the row of each
  entry in turn, \<open>MinByCol\<close> reads \<open>col_params(0, currentCol())\<close> once. The index is fixed in
  the code: a provider \<open>fit'\<close> that agrees with \<open>fit\<close> at index 0 gives the same result,
  whatever it holds at other indices.
\<close>

theorem min_stages_query_index_zero:
  assumes "loader s = (True, s')"
  shows "(i < capacity s' \<longrightarrow>
       valData (snd (Min_load fit loader s)) i =
         std_min (valData s' i) (global_params fit 0) \<and>
       valData (snd (MinByRow_load fit loader s)) i =
         std_min (valData s' i) (row_params fit 0 (rowData s' i)) \<and>
       valData (snd (MinByCol_load fit loader s)) i =
         std_min (valData s' i) (col_params fit 0 (currentCol s'))) \<and>
    lookups (snd (Min_load fit loader s)) =
      lookups s' @ replicate (unat (capacity s')) (global_lookup 0) \<and>
    lookups (snd (MinByRow_load fit loader s)) =
      lookups s' @ map (\<lambda>k. row_lookup 0 (rowData s' (of_nat k))) [0..<unat (capacity s')] \<and>
    lookups (snd (MinByCol_load fit loader s)) = lookups s' @ [col_lookup 0 (currentCol s')] \<and>
    (global_params fit' 0 = global_params fit 0 \<longrightarrow>
       Min_load fit' loader s = Min_load fit loader s) \<and>
    ((\<forall>r. row_params fit' 0 r = row_params fit 0 r) \<longrightarrow>
       MinByRow_load fit' loader s = MinByRow_load fit loader s) \<and>
    ((\<forall>c. col_params fit' 0 c = col_params fit 0 c) \<longrightarrow>
       MinByCol_load fit' loader s = MinByCol_load fit loader s)"
proof -
  have "global_params fit' 0 = global_params fit 0 \<Longrightarrow>
      Min_load fit' loader s = Min_load fit loader s"
    using assms by (simp add: Min_load_True Min_loop_cong [of fit' fit])
  moreover have "\<forall>r. row_params fit' 0 r = row_params fit 0 r \<Longrightarrow>
      MinByRow_load fit' loader s = MinByRow_load fit loader s"
    using assms by (simp add: MinByRow_load_True MinByRow_loop_cong [of fit' fit])
  moreover have "\<forall>c. col_params fit' 0 c = col_params fit 0 c \<Longrightarrow>
      MinByCol_load fit' loader s = MinByCol_load fit loader s"
    using assms by (simp add: MinByCol_load_True)
  moreover have "i < capacity s' \<Longrightarrow>
      valData (snd (Min_load fit loader s)) i =
        std_min (valData s' i) (global_params fit 0) \<and>
      valData (snd (MinByRow_load fit loader s)) i =
        std_min (valData s' i) (row_params fit 0 (rowData s' i)) \<and>
      valData (snd (MinByCol_load fit loader s)) i =
        std_min (valData s' i) (col_params fit 0 (currentCol s'))"
    using assms
    by (simp add: Min_load_True MinByRow_load_True MinByCol_load_True
        Min_loop_valData MinByRow_loop_valData MinByCol_loop_valData)
  moreover have "lookups (snd (Min_load fit loader s)) =
      lookups s' @ replicate (unat (capacity s')) (global_lookup 0)"
    using assms by (simp add: Min_load_True Min_loop_lookups)
  moreover have "lookups (snd (MinByRow_load fit loader s)) =
      lookups s' @ map (\<lambda>k. row_lookup 0 (rowData s' (of_nat k))) [0..<unat (capacity s')]"
    using assms by (simp add: MinByRow_load_True MinByRow_loop_lookups)
  moreover have "lookups (snd (MinByCol_load fit loader s)) =
      lookups s' @ [col_lookup 0 (currentCol s')]"
    using assms by (simp add: MinByCol_load_True MinByCol_loop_frame)
  ultimately show ?thesis
    by blast
qed

text \<open>On the example chunk the entry 5 (row 2, column 0) becomes 2 under the global
  parameter, stays 5 under the row parameter 10 and becomes 4 under the column parameter 4,
  each read at index 0. The lookups are three times \<open>global_params(0)\<close>, then
  \<open>row_params(0, 0)\<close>, \<open>row_params(0, 2)\<close>, \<open>row_params(0, 4)\<close>, then \<open>col_params(0, 0)\<close>; a
  provider that differs from the example at index 1 only gives the same results.\<close>

theorem min_stages_query_index_zero_witness:
  "source_of example_chunk example_chunk = (True, example_chunk) \<and>
   global_params other_fit 0 = global_params example_fit 0 \<and>
   global_params other_fit 1 \<noteq> global_params example_fit 1 \<and>
   (\<forall>r. row_params other_fit 0 r = row_params example_fit 0 r) \<and>
   (\<forall>c. col_params other_fit 0 c = col_params example_fit 0 c) \<and>
   (1::32 word) < capacity example_chunk \<and>
   valData (snd (Min_load example_fit (source_of example_chunk) example_chunk)) 1 = d_two \<and>
   valData (snd (MinByRow_load example_fit (source_of example_chunk) example_chunk)) 1 = d_five \<and>
   valData (snd (MinByCol_load example_fit (source_of example_chunk) example_chunk)) 1 = d_four \<and>
   lookups (snd (Min_load example_fit (source_of example_chunk) example_chunk)) =
     [global_lookup 0, global_lookup 0, global_lookup 0] \<and>
   lookups (snd (MinByRow_load example_fit (source_of example_chunk) example_chunk)) =
     [row_lookup 0 0, row_lookup 0 2, row_lookup 0 4] \<and>
   lookups (snd (MinByCol_load example_fit (source_of example_chunk) example_chunk)) =
     [col_lookup 0 0] \<and>
   Min_load other_fit (source_of example_chunk) example_chunk =
     Min_load example_fit (source_of example_chunk) example_chunk \<and>
   MinByRow_load other_fit (source_of example_chunk) example_chunk =
     MinByRow_load example_fit (source_of example_chunk) example_chunk \<and>
   MinByCol_load other_fit (source_of example_chunk) example_chunk =
     MinByCol_load example_fit (source_of example_chunk) example_chunk"
proof -
  have h: "source_of example_chunk example_chunk = (True, example_chunk)"
    by (simp add: source_of_def)
  have g: "global_params other_fit 0 = global_params example_fit 0"
    "global_params other_fit 1 \<noteq> global_params example_fit 1"
    "\<forall>r. row_params other_fit 0 r = row_params example_fit 0 r"
    "\<forall>c. col_params other_fit 0 c = col_params example_fit 0 c"
    by (simp_all add: other_fit_def example_fit_def d_two_def d_ten_def)
  have c: "unat (capacity example_chunk) = 3" "lookups example_chunk = []"
    "currentCol example_chunk = 0"
    "rowData example_chunk 0 = 0" "rowData example_chunk 1 = 2" "rowData example_chunk 2 = 4"
    by (simp_all add: example_chunk_def)
  have u: "[0..<3] = [0, 1, 2]" "replicate 3 (global_lookup 0) = [global_lookup 0, global_lookup 0, global_lookup 0]"
    by (simp_all add: upt_rec numeral_3_eq_3)
  have i: "(1::32 word) < capacity example_chunk" "valData example_chunk 1 = d_five"
    "global_params example_fit 0 = d_two" "row_params example_fit 0 2 = d_ten"
    "col_params example_fit 0 0 = d_four"
    by (simp_all add: example_chunk_def example_fit_def)
  from min_stages_query_index_zero [where loader = "source_of example_chunk" and s = example_chunk
      and s' = example_chunk and fit = example_fit and fit' = other_fit and i = 1] h g i(1)
  show ?thesis
    by (simp add: c u i example_mins)
qed

end
